theory Spec2Isabelle
  imports Main "HOL-Library.Sublist"
begin

section \<open>Python strings\<close>

text \<open>
  The pipeline of \<^verbatim>\<open>transformers/cleaner.py\<close> and the classifier of
  \<^verbatim>\<open>extractors/lens_extractor.py\<close> work on Python \<^verbatim>\<open>str\<close> values. They are modelled
  as \<^typ>\<open>string\<close>, one \<^typ>\<open>char\<close> per code point, for text in the ASCII range: the
  character classes and case mappings below are those of Python on code points below 128,
  and every other character has no case and belongs to no class.
\<close>

definition ascii_uppercase :: string where
  "ascii_uppercase = ''ABCDEFGHIJKLMNOPQRSTUVWXYZ''"

definition ascii_lowercase :: string where
  "ascii_lowercase = ''abcdefghijklmnopqrstuvwxyz''"

definition ascii_digits :: string where
  "ascii_digits = ''0123456789''"

text \<open>\<^verbatim>\<open>str.isspace\<close> below 128: TAB, LF, VT, FF, CR, FS, GS, RS, US and the space.\<close>

definition ascii_whitespace :: string where
  "ascii_whitespace = [CHR 0x09, CHR 0x0A, CHR 0x0B, CHR 0x0C, CHR 0x0D,
                       CHR 0x1C, CHR 0x1D, CHR 0x1E, CHR 0x1F, CHR 0x20]"

definition is_space :: "char \<Rightarrow> bool" where
  "is_space c = (c \<in> set ascii_whitespace)"

definition is_upper_c :: "char \<Rightarrow> bool" where
  "is_upper_c c = (c \<in> set ascii_uppercase)"

definition is_lower_c :: "char \<Rightarrow> bool" where
  "is_lower_c c = (c \<in> set ascii_lowercase)"

definition is_digit_c :: "char \<Rightarrow> bool" where
  "is_digit_c c = (c \<in> set ascii_digits)"

definition is_alpha_c :: "char \<Rightarrow> bool" where
  "is_alpha_c c = (is_upper_c c \<or> is_lower_c c)"

text \<open>The class \<^verbatim>\<open>\w\<close> of \<^verbatim>\<open>re\<close>: letters, digits and the underscore.\<close>

definition is_word_c :: "char \<Rightarrow> bool" where
  "is_word_c c = (is_alpha_c c \<or> is_digit_c c \<or> c = CHR ''_'')"

definition lower_c :: "char \<Rightarrow> char" where
  "lower_c c = (case map_of (zip ascii_uppercase ascii_lowercase) c of
                  Some d \<Rightarrow> d | None \<Rightarrow> c)"

definition upper_c :: "char \<Rightarrow> char" where
  "upper_c c = (case map_of (zip ascii_lowercase ascii_uppercase) c of
                  Some d \<Rightarrow> d | None \<Rightarrow> c)"

text \<open>\<^verbatim>\<open>s.lower()\<close> and \<^verbatim>\<open>s.upper()\<close>.\<close>

definition py_lower :: "string \<Rightarrow> string" where
  "py_lower s = map lower_c s"

definition py_upper :: "string \<Rightarrow> string" where
  "py_upper s = map upper_c s"

text \<open>\<^verbatim>\<open>s.strip()\<close> and \<^verbatim>\<open>s.strip(chars)\<close>: trim at both ends.\<close>

definition strip_where :: "(char \<Rightarrow> bool) \<Rightarrow> string \<Rightarrow> string" where
  "strip_where P s = rev (dropWhile P (rev (dropWhile P s)))"

definition py_strip :: "string \<Rightarrow> string" where
  "py_strip s = strip_where is_space s"

definition py_strip_chars :: "string \<Rightarrow> string \<Rightarrow> string" where
  "py_strip_chars chars s = strip_where (\<lambda>c. c \<in> set chars) s"

text \<open>
  \<^verbatim>\<open>s.isupper()\<close>: at least one cased character and no lower-case one;
  \<^verbatim>\<open>s.isalpha()\<close> and \<^verbatim>\<open>s.isdigit()\<close>: non-empty and every character in the class.
\<close>

definition py_isupper :: "string \<Rightarrow> bool" where
  "py_isupper s = (list_ex is_upper_c s \<and> \<not> list_ex is_lower_c s)"

definition py_isalpha :: "string \<Rightarrow> bool" where
  "py_isalpha s = (s \<noteq> [] \<and> list_all is_alpha_c s)"

definition py_isdigit :: "string \<Rightarrow> bool" where
  "py_isdigit s = (s \<noteq> [] \<and> list_all is_digit_c s)"

text \<open>
  \<^verbatim>\<open>s.split(sep)\<close> for a one-character separator keeps empty pieces;
  \<^verbatim>\<open>s.split()\<close> cuts at runs of whitespace and keeps none.
\<close>

fun split_where :: "(char \<Rightarrow> bool) \<Rightarrow> string \<Rightarrow> string list" where
  "split_where P [] = [[]]"
| "split_where P (c # cs) =
     (if P c then [] # split_where P cs
      else (case split_where P cs of
              [] \<Rightarrow> [[c]]
            | w # ws \<Rightarrow> (c # w) # ws))"

definition py_split_on :: "char \<Rightarrow> string \<Rightarrow> string list" where
  "py_split_on sep s = split_where (\<lambda>c. c = sep) s"

definition py_split :: "string \<Rightarrow> string list" where
  "py_split s = filter (\<lambda>w. w \<noteq> []) (split_where is_space s)"

text \<open>\<^verbatim>\<open>sep.join(parts)\<close>.\<close>

fun py_join :: "string \<Rightarrow> string list \<Rightarrow> string" where
  "py_join sep [] = []"
| "py_join sep [x] = x"
| "py_join sep (x # y # ys) = x @ sep @ py_join sep (y # ys)"

text \<open>
  \<^verbatim>\<open>s.title()\<close>: a cased character is upper-cased when the character before it is
  not cased, and lower-cased otherwise. The flag says whether the previous character
  was cased.
\<close>

fun title_from :: "bool \<Rightarrow> string \<Rightarrow> string" where
  "title_from prev [] = []"
| "title_from prev (c # cs) =
     (if is_lower_c c then (if prev then c else upper_c c) # title_from True cs
      else if is_upper_c c then (if prev then lower_c c else c) # title_from True cs
      else c # title_from False cs)"

definition py_title :: "string \<Rightarrow> string" where
  "py_title s = title_from False s"

text \<open>\<^verbatim>\<open>sub in s\<close>: \<^verbatim>\<open>sub\<close> occurs in \<^verbatim>\<open>s\<close> as a contiguous piece.\<close>

fun starts_with :: "string \<Rightarrow> string \<Rightarrow> bool" where
  "starts_with [] s = True"
| "starts_with (d # ds) [] = False"
| "starts_with (d # ds) (c # cs) = (d = c \<and> starts_with ds cs)"

fun py_in :: "string \<Rightarrow> string \<Rightarrow> bool" where
  "py_in sub [] = (sub = [])"
| "py_in sub (c # cs) = (starts_with sub (c # cs) \<or> py_in sub cs)"

section \<open>Regular expressions\<close>

text \<open>
  The patterns of \<^verbatim>\<open>config.py\<close> use literals, the classes \<^verbatim>\<open>.\<close>, \<^verbatim>\<open>\s\<close> and
  \<^verbatim>\<open>\w\<close>, the repetitions \<^verbatim>\<open>*\<close> and \<^verbatim>\<open>+\<close> of one character class, optional
  parts, alternatives and the anchors \<^verbatim>\<open>^\<close> and \<^verbatim>\<open>$\<close>. \<^verbatim>\<open>re.match(p, s)\<close> is
  used as a truth value only: some prefix of \<^verbatim>\<open>s\<close> matches \<^verbatim>\<open>p\<close>.
\<close>

datatype cclass = Chr char | Dot | Spc | Wrd

datatype regex =
    Lit string
  | Cls cclass
  | Star cclass
  | Plus cclass
  | Opt regex
  | Alt regex regex
  | Cat regex regex
  | Bol
  | Eol

text \<open>The flag is \<^verbatim>\<open>re.IGNORECASE\<close>. The dot matches everything but a line feed.\<close>

fun cclass_ok :: "bool \<Rightarrow> cclass \<Rightarrow> char \<Rightarrow> bool" where
  "cclass_ok ic (Chr d) c = (if ic then lower_c c = lower_c d else c = d)"
| "cclass_ok ic Dot c = (c \<noteq> CHR 0x0A)"
| "cclass_ok ic Spc c = is_space c"
| "cclass_ok ic Wrd c = is_word_c c"

text \<open>The input left after the literal \<open>w\<close>, when the input starts with it.\<close>

fun lit_rest :: "bool \<Rightarrow> string \<Rightarrow> string \<Rightarrow> string option" where
  "lit_rest ic [] s = Some s"
| "lit_rest ic (d # ds) [] = None"
| "lit_rest ic (d # ds) (c # cs) =
     (if cclass_ok ic (Chr d) c then lit_rest ic ds cs else None)"

text \<open>
  A matcher state is the input still to be read, with a flag saying that nothing has
  been read yet (the position \<^verbatim>\<open>^\<close> asks for). \<open>ends r st\<close> lists every state in which
  a match of \<open>r\<close> started in \<open>st\<close> can end; backtracking finds a match exactly when
  that list is not empty.
\<close>

type_synonym mstate = "bool \<times> string"

fun star_ends :: "bool \<Rightarrow> cclass \<Rightarrow> string \<Rightarrow> mstate list" where
  "star_ends ic a [] = []"
| "star_ends ic a (c # cs) =
     (if cclass_ok ic a c then (False, cs) # star_ends ic a cs else [])"

fun ends :: "bool \<Rightarrow> regex \<Rightarrow> mstate \<Rightarrow> mstate list" where
  "ends ic (Lit w) (b, s) =
     (case lit_rest ic w s of None \<Rightarrow> [] | Some t \<Rightarrow> [(b \<and> w = [], t)])"
| "ends ic (Cls a) (b, s) =
     (case s of [] \<Rightarrow> [] | c # cs \<Rightarrow> if cclass_ok ic a c then [(False, cs)] else [])"
| "ends ic (Star a) (b, s) = (b, s) # star_ends ic a s"
| "ends ic (Plus a) (b, s) = star_ends ic a s"
| "ends ic (Opt r) st = st # ends ic r st"
| "ends ic (Alt r1 r2) st = ends ic r1 st @ ends ic r2 st"
| "ends ic (Cat r1 r2) st = concat (map (ends ic r2) (ends ic r1 st))"
| "ends ic Bol (b, s) = (if b then [(b, s)] else [])"
| "ends ic Eol (b, s) = (if s = [] \<or> s = [CHR 0x0A] then [(b, s)] else [])"

definition cat :: "regex list \<Rightarrow> regex" where
  "cat rs = foldr Cat rs (Lit [])"

definition re_match :: "bool \<Rightarrow> regex \<Rightarrow> string \<Rightarrow> bool" where
  "re_match ic r s = (ends ic r (True, s) \<noteq> [])"

section \<open>Configuration tables (\<^verbatim>\<open>config.py\<close>)\<close>

text \<open>
  \<^verbatim>\<open>INSTITUTION_STANDARDS\<close> is a dict literal with no repeated key, iterated with
  \<^verbatim>\<open>.items()\<close>: an association list in the order of declaration. Each pattern is
  written with the constructors above, piece by piece as in the source string.
\<close>

definition INSTITUTION_STANDARDS :: "(regex \<times> string) list" where
  "INSTITUTION_STANDARDS = [
   (cat [Lit ''qatar'', Star Spc, Lit ''found'', Star Dot, Lit ''education'', Star Dot, Lit ''science'', Star Dot, Lit ''community'', Star Dot, Lit ''dev'', Star Dot],
     ''Qatar Foundation for Education, Science and Community Development''),
   (cat [Lit ''qatar'', Star Spc, Lit ''found'', Star Dot, Lit ''education'', Star Dot, Lit ''science'', Star Dot, Lit ''community''],
     ''Qatar Foundation for Education, Science and Community Development''),
   (cat [Lit ''qatar'', Star Spc, Lit ''found'', Star Dot, Lit ''science'', Star Dot, Lit ''education'', Star Dot, Lit ''community''],
     ''Qatar Foundation for Education, Science and Community Development''),
   (cat [Lit ''qatar'', Star Spc, Lit ''found'', Star Dot, Lit ''science'', Star Dot, Lit ''education'', Star Dot, Lit ''social''],
     ''Qatar Foundation for Education, Science and Community Development''),
   (cat [Lit ''qatar'', Star Spc, Lit ''found'', Star Dot, Lit ''for'', Star Spc, Lit ''science'', Star Spc, Lit ''education''],
     ''Qatar Foundation for Education, Science and Community Development''),
   (cat [Lit ''qatar'', Star Spc, Lit ''found'', Star Dot, Lit ''education'', Star Dot, Lit ''science'', Star Dot],
     ''Qatar Foundation for Education, Science and Community Development''),
   (cat [Lit ''qatar'', Star Spc, Lit ''found'', Star Dot, Lit ''science'', Star Dot, Lit ''community''],
     ''Qatar Foundation for Education, Science and Community Development''),
   (cat [Lit ''qatar'', Star Spc, Lit ''foundation'', Star Spc, Lit ''for'', Star Spc, Lit ''education''],
     ''Qatar Foundation for Education, Science and Community Development''),
   (cat [Lit ''qatar'', Star Spc, Lit ''foundation'', Star Spc, Lit ''for'', Star Spc, Lit ''ed'', Opt (Lit ''.''), Star Spc, Lit ''science''],
     ''Qatar Foundation for Education, Science and Community Development''),
   (cat [Bol, Lit ''qatar'', Star Spc, Lit ''foundation'', Star Spc, Opt (Lit '',''), Star Spc, Eol],
     ''Qatar Foundation for Education, Science and Community Development''),
   (cat [Bol, Lit ''qatar'', Star Spc, Lit ''found'', Opt (Lit ''.''), Star Spc, Opt (Lit '',''), Star Spc, Eol],
     ''Qatar Foundation for Education, Science and Community Development''),
   (cat [Bol, Lit ''qatar'', Star Spc, Lit ''found'', Plus Spc, Lit ''for'', Plus Spc],
     ''Qatar Foundation for Education, Science and Community Development''),
   (cat [Lit ''qatar'', Star Spc, Lit ''founation''],
     ''Qatar Foundation for Education, Science and Community Development''),
   (cat [Lit ''qatar'', Star Spc, Lit ''foundatiion''],
     ''Qatar Foundation for Education, Science and Community Development''),
   (cat [Lit ''qatar'', Star Spc, Lit ''founda'', Opt (Lit ''t''), Lit ''ion''],
     ''Qatar Foundation for Education, Science and Community Development''),
   (cat [Lit ''qator'', Star Spc, Lit ''found''],
     ''Qatar Foundation for Education, Science and Community Development''),
   (cat [Lit ''qf'', Star Spc, Lit ''for'', Star Spc, Lit ''education''],
     ''Qatar Foundation for Education, Science and Community Development''),
   (cat [Bol, Lit ''qatar'', Plus Spc, Lit ''found'', Star Spc, Eol],
     ''Qatar Foundation for Education, Science and Community Development''),
   (cat [Lit ''qatar'', Star Spc, Lit ''mini'', Star Dot, Lit ''education'', Star Dot, Lit ''higher''],
     ''Qatar Ministry of Education and Higher Education''),
   (cat [Lit ''qatar'', Star Spc, Lit ''ministry'', Star Dot, Lit ''education'', Star Dot, Lit ''higher''],
     ''Qatar Ministry of Education and Higher Education''),
   (cat [Lit ''qatar'', Star Spc, Lit ''ministry'', Star Spc, Lit ''of'', Star Spc, Lit ''education''],
     ''Qatar Ministry of Education and Higher Education''),
   (cat [Lit ''qatar'', Star Spc, Lit ''mini'', Star Dot, Lit ''of'', Star Dot, Lit ''education''],
     ''Qatar Ministry of Education and Higher Education''),
   (cat [Lit ''ministry'', Star Dot, Lit ''education'', Star Dot, Lit ''qatar''],
     ''Qatar Ministry of Education and Higher Education''),
   (cat [Bol, Lit ''moe'', Star Spc, Lit ''qatar''],
     ''Qatar Ministry of Education and Higher Education''),
   (cat [Bol, Lit ''moehe'', Star Spc, Eol],
     ''Qatar Ministry of Education and Higher Education''),
   (cat [Bol, Lit ''univ'', Opt (Lit ''.''), Star Spc, Lit ''qatar''],
     ''Qatar University''),
   (cat [Bol, Lit ''qatar'', Star Spc, Lit ''university'', Star Spc, Lit ''qstp'', Star Dot],
     ''Qatar University''),
   (cat [Bol, Lit ''qatar'', Star Spc, Lit ''university'', Star Spc, Opt (Lit '',''), Star Spc, Eol],
     ''Qatar University''),
   (cat [Bol, Lit ''qatar'', Star Spc, Lit ''univ'', Opt (Lit ''.''), Star Spc],
     ''Qatar University''),
   (cat [Bol, Lit ''quatar'', Star Spc, Lit ''univ''],
     ''Qatar University''),
   (cat [Lit ''qatar'', Star Spc, Lit ''university'', Star Spc, Lit ''global'', Star Spc, Lit ''patent''],
     ''Qatar University''),
   (cat [Lit ''qatar'', Star Spc, Lit ''university'', Star Spc, Lit ''office''],
     ''Qatar University''),
   (cat [Lit ''qatar'', Star Spc, Lit ''university'', Star Spc, Lit ''al'', Star Spc, Lit ''tarfa''],
     ''Qatar University''),
   (cat [Bol, Lit ''qu'', Star Spc, Lit ''qstp''],
     ''Qatar University''),
   (cat [Lit ''hamad'', Star Spc, Lit ''med'', Star Dot, Lit ''corp''],
     ''Hamad Medical Corporation''),
   (cat [Bol, Lit ''hamad'', Star Spc, Lit ''medical'', Star Spc, Eol],
     ''Hamad Medical Corporation''),
   (cat [Bol, Lit ''hmc'', Star Spc, Eol],
     ''Hamad Medical Corporation''),
   (cat [Bol, Lit ''sidra'', Star Spc, Lit ''med'', Star Dot],
     ''Sidra Medicine''),
   (cat [Bol, Lit ''sidra'', Star Spc, Lit ''research''],
     ''Sidra Medicine''),
   (cat [Lit ''hamad'', Star Spc, Lit ''bin'', Star Spc, Lit ''khalifa'', Star Spc, Lit ''univ'', Star Dot],
     ''Hamad Bin Khalifa University''),
   (cat [Bol, Lit ''hbku'', Star Spc, Eol],
     ''Hamad Bin Khalifa University''),
   (cat [Lit ''qatar'', Star Spc, Lit ''football'', Star Spc, Lit ''ass'', Star Dot],
     ''Qatar Football Association''),
   (cat [Bol, Lit ''qfa'', Star Spc, Eol],
     ''Qatar Football Association''),
   (cat [Lit ''maersk'', Star Spc, Lit ''oil'', Star Spc, Lit ''qatar'', Star Dot],
     ''Maersk Oil Qatar AS''),
   (cat [Bol, Lit ''maersk'', Star Spc, Lit ''qatar''],
     ''Maersk Oil Qatar AS''),
   (cat [Lit ''college'', Star Dot, Lit ''north'', Star Spc, Lit ''atlantic'', Star Dot, Lit ''qatar''],
     ''College of the North Atlantic Qatar''),
   (cat [Bol, Lit ''cna'', Star Spc, Lit ''qatar''],
     ''College of the North Atlantic Qatar''),
   (cat [Bol, Lit ''cna-q''],
     ''College of the North Atlantic Qatar''),
   (cat [Lit ''texas'', Star Spc, Lit ''a'', Star Spc, Opt (Lit ''&''), Star Spc, Lit ''m'', Star Spc, Lit ''univ'', Star Dot],
     ''Texas A&M University at Qatar''),
   (cat [Bol, Lit ''tamu'', Star Spc, Lit ''qatar''],
     ''Texas A&M University at Qatar''),
   (cat [Bol, Lit ''tamuq''],
     ''Texas A&M University at Qatar''),
   (cat [Lit ''weill'', Star Spc, Lit ''cornell'', Star Dot],
     ''Weill Cornell Medicine-Qatar''),
   (cat [Bol, Lit ''wcm'', Opt (Lit ''-''), Lit ''q''],
     ''Weill Cornell Medicine-Qatar''),
   (cat [Lit ''northwestern'', Star Dot, Lit ''qatar''],
     ''Northwestern University in Qatar''),
   (cat [Bol, Lit ''nu'', Opt (Lit ''-''), Lit ''q''],
     ''Northwestern University in Qatar''),
   (cat [Lit ''carnegie'', Star Spc, Lit ''mellon'', Star Dot],
     ''Carnegie Mellon University in Qatar''),
   (cat [Bol, Lit ''cmu'', Opt (Lit ''-''), Lit ''q''],
     ''Carnegie Mellon University in Qatar''),
   (cat [Lit ''georgetown'', Star Dot, Lit ''qatar''],
     ''Georgetown University in Qatar''),
   (cat [Bol, Lit ''gu'', Opt (Lit ''-''), Lit ''q''],
     ''Georgetown University in Qatar''),
   (cat [Lit ''virginia'', Star Spc, Lit ''commonwealth'', Star Dot, Lit ''qatar''],
     ''Virginia Commonwealth University in Qatar''),
   (cat [Bol, Lit ''vcu'', Opt (Lit ''-''), Lit ''q''],
     ''Virginia Commonwealth University in Qatar''),
   (cat [Lit ''university'', Star Spc, Lit ''of'', Star Spc, Lit ''doha''],
     ''University of Doha for Science and Technology''),
   (cat [Bol, Lit ''udst''],
     ''University of Doha for Science and Technology''),
   (cat [Lit ''qatar'', Star Spc, Lit ''fertiliser''],
     ''Qatar Fertiliser Company''),
   (cat [Lit ''anti'', Star Dot, Lit ''doping'', Star Dot, Lit ''qatar''],
     ''Anti-Doping Lab Qatar''),
   (cat [Lit ''qatar'', Star Spc, Lit ''invest'', Star Dot, Lit ''authority''],
     ''Qatar Investment Authority''),
   (cat [Bol, Lit ''qia'', Star Spc, Eol],
     ''Qatar Investment Authority''),
   (cat [Lit ''qatar'', Star Spc, Lit ''petroleum''],
     ''Qatar Petroleum''),
   (cat [Bol, Lit ''qp'', Star Spc, Eol],
     ''Qatar Petroleum''),
   (cat [Lit ''qatar'', Star Spc, Lit ''energy''],
     ''Qatar Energy''),
   (cat [Lit ''qatar'', Star Spc, Lit ''national'', Star Spc, Lit ''research'', Star Spc, Lit ''fund''],
     ''Qatar National Research Fund''),
   (cat [Bol, Lit ''qnrf'', Star Spc, Eol],
     ''Qatar National Research Fund''),
   (cat [Lit ''qatar'', Star Spc, Lit ''biobank''],
     ''Qatar Biobank''),
   (cat [Lit ''qatar'', Star Spc, Lit ''genome''],
     ''Qatar Genome Programme''),
   (cat [Lit ''qatar'', Star Spc, Lit ''computing'', Star Spc, Lit ''research''],
     ''Qatar Computing Research Institute''),
   (cat [Bol, Lit ''qcri'', Star Spc, Eol],
     ''Qatar Computing Research Institute''),
   (cat [Lit ''qatar'', Star Spc, Lit ''environment'', Star Dot, Lit ''energy''],
     ''Qatar Environment and Energy Research Institute''),
   (cat [Bol, Lit ''qeeri'', Star Spc, Eol],
     ''Qatar Environment and Energy Research Institute''),
   (cat [Lit ''qatar'', Star Spc, Lit ''biomedical'', Star Spc, Lit ''research''],
     ''Qatar Biomedical Research Institute''),
   (cat [Bol, Lit ''qbri'', Star Spc, Eol],
     ''Qatar Biomedical Research Institute''),
   (cat [Lit ''iberdrola'', Star Spc, Lit ''qstp''],
     ''Iberdrola QSTP LLC'')]"

definition GARBAGE_FRAGMENTS :: "regex list" where
  "GARBAGE_FRAGMENTS = [
    cat [Bol, Lit ''science'', Star Spc, Opt (Alt (Lit ''and'') (Lit ''&'')), Star Spc, Lit ''community'', Star Dot, Eol],
    cat [Bol, Lit ''education'', Star Spc, Opt (Alt (Lit ''and'') (Lit ''&'')), Star Spc, Lit ''science'', Star Dot, Eol],
    cat [Bol, Lit ''community'', Star Spc, Lit ''development'', Star Dot, Eol],
    cat [Bol, Lit ''social'', Star Spc, Lit ''development'', Star Dot, Eol],
    cat [Bol, Lit ''higher'', Star Spc, Lit ''education'', Star Dot, Eol],
    cat [Bol, Alt (Lit ''and'') (Lit ''&''), Plus Spc, Plus Wrd, Star Dot, Eol],
    cat [Bol, Lit ''for'', Plus Spc, Plus Wrd, Star Dot, Eol]]"

definition ORGANIZATION_KEYWORDS :: "string list" where
  "ORGANIZATION_KEYWORDS = [
    ''university'', ''univ'', ''college'', ''institute'', ''institution'', ''foundation'',
    ''corporation'', ''corp'', ''company'', ''co'', ''hospital'', ''medical'', ''medicine'',
    ''clinic'', ''health'', ''research'', ''laboratory'', ''lab'', ''center'', ''centre'',
    ''authority'', ''ministry'', ''government'', ''council'', ''bank'', ''petroleum'', ''oil'',
    ''gas'', ''energy'', ''qatar'', ''qf'', ''qu'', ''hbku'', ''hmc'', ''sidra'', ''texas a&m'',
    ''weill cornell'', ''carnegie mellon'', ''northwestern'', ''georgetown'',
    ''virginia commonwealth'', ''north atlantic'', ''iberdrola'', ''maersk'', ''exxon'',
    ''shell'', ''total'', ''llc'', ''ltd'', ''inc'', ''plc'', ''sa'', ''as'', ''ag'', ''gmbh'',
    ''bv'', ''nv'', ''spa'', ''srl'']"

definition QATAR_ORGANIZATIONS :: "string list" where
  "QATAR_ORGANIZATIONS = [
    ''Qatar Foundation for Education, Science and Community Development'', ''Qatar University'',
    ''Hamad Medical Corporation'', ''Sidra Medicine'', ''Hamad Bin Khalifa University'',
    ''Texas A&M University at Qatar'', ''Weill Cornell Medicine-Qatar'',
    ''Carnegie Mellon University in Qatar'', ''Northwestern University in Qatar'',
    ''Georgetown University in Qatar'', ''Virginia Commonwealth University in Qatar'',
    ''College of the North Atlantic Qatar'', ''University of Doha for Science and Technology'',
    ''Qatar Petroleum'', ''Qatar Energy'', ''Qatar National Research Fund'',
    ''Qatar Computing Research Institute'', ''Qatar Environment and Energy Research Institute'',
    ''Qatar Biomedical Research Institute'', ''Qatar Biobank'', ''Qatar Genome Programme'',
    ''Qatar Investment Authority'', ''Qatar Football Association'',
    ''Qatar Ministry of Education and Higher Education'', ''Maersk Oil Qatar AS'',
    ''Iberdrola QSTP LLC'', ''Anti-Doping Lab Qatar'', ''Qatar Fertiliser Company'',
    ''Qatar Airways'', ''Qatar National Bank'', ''Ooredoo'', ''Kahramaa'', ''Ashghal'',
    ''Qatar Rail'', ''Qatar Museums'', ''Qatar Science and Technology Park'', ''QSTP'']"

section \<open>Name standardisation (\<^verbatim>\<open>PatentCleaner._standardize_institutions\<close>)\<close>

text \<open>
  \<^verbatim>\<open>re.sub(r'\s*\[[A-Z]{2}\]\s*', '', name)\<close>. \<open>country_code_rest s\<close> is the input
  left after a match of the pattern at the head of \<open>s\<close>: the longest run of whitespace,
  a bracketed pair of capitals, and the longest run of whitespace again (the character
  after the first run must be the bracket, so no shorter run can match). The
  substitution scans from the left, drops each match and keeps every other character.
\<close>

definition country_code_rest :: "string \<Rightarrow> string option" where
  "country_code_rest s =
     (case dropWhile is_space s of
        b # x # y # e # rest \<Rightarrow>
          if b = CHR ''['' \<and> is_upper_c x \<and> is_upper_c y \<and> e = CHR '']''
          then Some (dropWhile is_space rest) else None
      | _ \<Rightarrow> None)"

function remove_country_codes :: "string \<Rightarrow> string" where
  "remove_country_codes [] = []"
| "remove_country_codes (c # cs) =
     (case country_code_rest (c # cs) of
        Some rest \<Rightarrow> remove_country_codes rest
      | None \<Rightarrow> c # remove_country_codes cs)"
  by pat_completeness auto
termination
proof (relation "measure length")
  show "wf (measure length)" by simp
next
  fix c :: char and cs rest :: string
  assume m: "country_code_rest (c # cs) = Some rest"
  from m obtain b x y e r where
      d: "dropWhile is_space (c # cs) = b # x # y # e # r" and
      r: "rest = dropWhile is_space r"
    unfolding country_code_rest_def
    by (auto split: list.splits if_splits)
  have "length rest \<le> length r"
    unfolding r by (rule length_dropWhile_le)
  also have "length r < length (dropWhile is_space (c # cs))"
    unfolding d by simp
  also have "\<dots> \<le> length (c # cs)"
    by (rule length_dropWhile_le)
  finally have "length rest < length (c # cs)" .
  then show "(rest, c # cs) \<in> measure length" by simp
next
  fix c :: char and cs :: string
  show "(cs, c # cs) \<in> measure length" by simp
qed

text \<open>The two scans of \<^verbatim>\<open>standardize_name\<close>: both stop at the first pattern that matches.\<close>

fun is_garbage :: "regex list \<Rightarrow> string \<Rightarrow> bool" where
  "is_garbage [] name_lower = False"
| "is_garbage (garbage_pattern # rest) name_lower =
     (if re_match True garbage_pattern name_lower then True
      else is_garbage rest name_lower)"

fun match_standard :: "(regex \<times> string) list \<Rightarrow> string \<Rightarrow> string option" where
  "match_standard [] name_lower = None"
| "match_standard ((pattern, standard) # rest) name_lower =
     (if re_match False pattern name_lower then Some standard
      else match_standard rest name_lower)"

text \<open>ALL CAPS to Title Case, word by word; a word of at most 3 letters is kept.\<close>

definition caps_to_title :: "string \<Rightarrow> string" where
  "caps_to_title name =
     (if py_isupper name \<and> length name > 4
      then py_join '' ''
             (map (\<lambda>w. if length w \<le> 3 \<and> py_isalpha w then w else py_title w)
                  (py_split name))
      else name)"

text \<open>\<^verbatim>\<open>"LASTNAME, FIRSTNAME"\<close> becomes \<^verbatim>\<open>"FIRSTNAME LASTNAME"\<close>.\<close>

definition swap_last_first :: "string \<Rightarrow> string" where
  "swap_last_first name =
     (if CHR '','' \<in> set name \<and> length (py_split_on CHR '','' name) = 2
      then (case py_split_on CHR '','' name of
              [p0, p1] \<Rightarrow>
                if length (py_split p0) = 1 \<and> length (py_split (py_strip p1)) \<le> 2
                then (let swapped = py_strip p1 @ '' '' @ py_strip p0
                      in if py_isupper swapped then py_title swapped else swapped)
                else name
            | _ \<Rightarrow> name)
      else name)"

text \<open>
  The first lines of \<^verbatim>\<open>standardize_name\<close>: trim, remove the country codes, strip
  the trailing punctuation.
\<close>

definition trim_name :: "string \<Rightarrow> string" where
  "trim_name name0 = py_strip_chars '' ,;.'' (remove_country_codes (py_strip name0))"

text \<open>
  \<^verbatim>\<open>standardize_name\<close>, with the two tables it reads as parameters. The counter
  \<^verbatim>\<open>stats['names_standardized']\<close> that the source increments is not part of the result
  and is left out.
\<close>

definition standardize_name_with ::
    "regex list \<Rightarrow> (regex \<times> string) list \<Rightarrow> string \<Rightarrow> string" where
  "standardize_name_with garbage standards name0 =
     (if name0 = [] then []
      else
        let name = trim_name name0 in
        if name = [] then []
        else
          let name_lower = py_strip (py_lower name) in
          if is_garbage garbage name_lower then []
          else (case match_standard standards name_lower of
                  Some standard \<Rightarrow> standard
                | None \<Rightarrow> py_strip (swap_last_first (caps_to_title name))))"

definition standardize_name :: "string \<Rightarrow> string" where
  "standardize_name = standardize_name_with GARBAGE_FRAGMENTS INSTITUTION_STANDARDS"

text \<open>
  A cell of a data frame is a string or missing (\<^verbatim>\<open>NaN\<close>/\<^verbatim>\<open>None\<close>, for which
  \<^verbatim>\<open>pd.isna\<close> holds).
\<close>

type_synonym cell = "string option"

text \<open>\<^verbatim>\<open>re.sub(r'[^a-z0-9]', '', p.lower())\<close>.\<close>

definition norm_key :: "string \<Rightarrow> string" where
  "norm_key p = filter (\<lambda>c. is_lower_c c \<or> is_digit_c c) (py_lower p)"

text \<open>
  The loop of \<^verbatim>\<open>clean_name_field\<close> over the parts, with its two accumulators
  \<^verbatim>\<open>cleaned\<close> and \<^verbatim>\<open>seen\<close>.
\<close>

fun clean_parts ::
    "regex list \<Rightarrow> (regex \<times> string) list \<Rightarrow> string list \<Rightarrow> string list \<Rightarrow> string set
     \<Rightarrow> string list" where
  "clean_parts garbage standards [] cleaned seen = cleaned"
| "clean_parts garbage standards (p0 # parts) cleaned seen =
     (let p = standardize_name_with garbage standards p0 in
      if p = [] then clean_parts garbage standards parts cleaned seen
      else
        let key = norm_key p in
        if key \<noteq> [] \<and> length key > 1 \<and> key \<notin> seen
        then clean_parts garbage standards parts (cleaned @ [p]) (insert key seen)
        else clean_parts garbage standards parts cleaned seen)"

definition clean_name_field_with ::
    "regex list \<Rightarrow> (regex \<times> string) list \<Rightarrow> cell \<Rightarrow> string" where
  "clean_name_field_with garbage standards value =
     (case value of
        None \<Rightarrow> []
      | Some v \<Rightarrow>
          if v = [] then []
          else py_join ''; '' (clean_parts garbage standards (py_split_on CHR '';'' v) [] {}))"

definition clean_name_field :: "cell \<Rightarrow> string" where
  "clean_name_field = clean_name_field_with GARBAGE_FRAGMENTS INSTITUTION_STANDARDS"

section \<open>Records and data frames\<close>

text \<open>
  A row has the columns of \<^verbatim>\<open>OUTPUT_COLUMNS\<close>; a \<^verbatim>\<open>DataFrame\<close> is the list of its
  rows in index order. \<^verbatim>\<open>ResourceId\<close> is the integer key the system assigns.
  \<^verbatim>\<open>_ensure_columns\<close> adds missing columns and orders them; with the columns fixed by
  the record type it changes nothing and has no counterpart here. Log lines and the
  \<^verbatim>\<open>stats\<close> counters are not part of any result and are left out.
\<close>

record patent =
  ResourceId :: int
  ApplicationNumber :: cell
  ApplicationDate :: cell
  PatentYear :: cell
  Title :: cell
  Abstract :: cell
  Applicants :: cell
  Inventors :: cell
  Owners :: cell
  PatentUrl :: cell
  DocumentTypeId :: "int option"
  DocumentTypeName :: cell
  LegalStatusName :: cell
  Source :: cell
  ExtractedDate :: cell

subsection \<open>\<^verbatim>\<open>_clean_text_fields\<close> and \<^verbatim>\<open>_standardize_institutions\<close>\<close>

definition clean_text :: "cell \<Rightarrow> string" where
  "clean_text value =
     (case value of
        None \<Rightarrow> []
      | Some v \<Rightarrow> if v = [] then [] else py_strip v)"

text \<open>
  \<^verbatim>\<open>df[col] = df[col].apply(f)\<close> for each of the three columns: every row gets
  the three cells rewritten.
\<close>

definition clean_text_row :: "patent \<Rightarrow> patent" where
  "clean_text_row r =
     r\<lparr>Title := Some (clean_text (Title r)),
       Abstract := Some (clean_text (Abstract r)),
       ApplicationNumber := Some (clean_text (ApplicationNumber r))\<rparr>"

definition clean_text_fields :: "patent list \<Rightarrow> patent list" where
  "clean_text_fields df = map clean_text_row df"

definition standardize_row :: "patent \<Rightarrow> patent" where
  "standardize_row r =
     r\<lparr>Applicants := Some (clean_name_field (Applicants r)),
       Inventors := Some (clean_name_field (Inventors r)),
       Owners := Some (clean_name_field (Owners r))\<rparr>"

definition standardize_institutions :: "patent list \<Rightarrow> patent list" where
  "standardize_institutions df = map standardize_row df"

subsection \<open>\<^verbatim>\<open>_format_dates\<close>\<close>

definition format_date :: "cell \<Rightarrow> string" where
  "format_date d0 =
     (case d0 of
        None \<Rightarrow> []
      | Some v \<Rightarrow>
          if v = [] then []
          else
            let d = py_strip v in
            if length d = 8 \<and> py_isdigit d
            then take 4 d @ ''-'' @ take 2 (drop 4 d) @ ''-'' @ take 2 (drop 6 d)
            else d)"

text \<open>
  The column \<^verbatim>\<open>ApplicationDate\<close> is rewritten first, and \<^verbatim>\<open>PatentYear\<close> is then
  read from the rewritten column (\<^verbatim>\<open>.str[:4]\<close>).
\<close>

definition format_dates :: "patent list \<Rightarrow> patent list" where
  "format_dates df =
     map (\<lambda>r. r\<lparr>PatentYear := map_option (take 4) (ApplicationDate r)\<rparr>)
         (map (\<lambda>r. r\<lparr>ApplicationDate := Some (format_date (ApplicationDate r))\<rparr>) df)"

subsection \<open>\<^verbatim>\<open>_deduplicate\<close>\<close>

text \<open>
  \<^verbatim>\<open>DataFrame.drop_duplicates(subset=[col], keep='first')\<close>: a row is dropped when
  an earlier row has the same value in the column; missing values count as equal to
  each other. \<open>seen\<close> holds the values of the rows read so far.
\<close>

fun drop_duplicates_from :: "('a \<Rightarrow> 'k) \<Rightarrow> 'k set \<Rightarrow> 'a list \<Rightarrow> 'a list" where
  "drop_duplicates_from key seen [] = []"
| "drop_duplicates_from key seen (r # rs) =
     (if key r \<in> seen then drop_duplicates_from key seen rs
      else r # drop_duplicates_from key (insert (key r) seen) rs)"

definition drop_duplicates :: "('a \<Rightarrow> 'k) \<Rightarrow> 'a list \<Rightarrow> 'a list" where
  "drop_duplicates key df = drop_duplicates_from key {} df"

text \<open>\<^verbatim>\<open>df['Title'].str.lower().str[:100]\<close>; a missing title stays missing.\<close>

definition norm_title :: "cell \<Rightarrow> cell" where
  "norm_title t = map_option (\<lambda>v. take 100 (py_lower v)) t"

definition deduplicate :: "patent list \<Rightarrow> patent list" where
  "deduplicate df0 =
     (let df = drop_duplicates ApplicationNumber df0
      in drop_duplicates (\<lambda>r. norm_title (Title r)) df)"

subsection \<open>\<^verbatim>\<open>_add_standard_columns\<close>\<close>

text \<open>
  The extractors produce no column \<^verbatim>\<open>ResourceId\<close>, \<^verbatim>\<open>DocumentTypeId\<close> or
  \<^verbatim>\<open>DocumentTypeName\<close>, so in \<^verbatim>\<open>clean\<close> these three are filled in: the identifiers
  are \<^verbatim>\<open>range(50000, 50000 + len(df))\<close>. The other columns exist already and are
  kept.
\<close>

fun assign_ids :: "int \<Rightarrow> patent list \<Rightarrow> patent list" where
  "assign_ids n [] = []"
| "assign_ids n (r # rs) = r\<lparr>ResourceId := n\<rparr> # assign_ids (n + 1) rs"

definition add_standard_columns :: "patent list \<Rightarrow> patent list" where
  "add_standard_columns df =
     map (\<lambda>r. r\<lparr>DocumentTypeId := Some 3, DocumentTypeName := Some ''Patent Application''\<rparr>)
         (assign_ids 50000 df)"

subsection \<open>\<^verbatim>\<open>merge_with_existing\<close>\<close>

text \<open>\<^verbatim>\<open>str(x).replace(c, '')\<close> for a one-character \<^verbatim>\<open>c\<close>.\<close>

definition remove_char :: "char \<Rightarrow> string \<Rightarrow> string" where
  "remove_char c s = filter (\<lambda>x. x \<noteq> c) s"

definition normalize_app_num :: "cell \<Rightarrow> string" where
  "normalize_app_num x =
     (case x of
        None \<Rightarrow> []
      | Some v \<Rightarrow>
          py_strip (py_upper (remove_char CHR ''-'' (remove_char CHR ''.''
                                (remove_char CHR '' '' v)))))"

primrec dropna :: "'a option list \<Rightarrow> 'a list" where
  "dropna [] = []"
| "dropna (x # xs) = (case x of None \<Rightarrow> dropna xs | Some v \<Rightarrow> v # dropna xs)"

text \<open>The first step of the merge: the existing data, standardised again.\<close>

definition restandardized :: "patent list \<Rightarrow> patent list" where
  "restandardized existing_df = clean_text_fields (standardize_institutions existing_df)"

definition existing_apps :: "patent list \<Rightarrow> string set" where
  "existing_apps existing_df =
     set (map (\<lambda>r. normalize_app_num (ApplicationNumber r)) (restandardized existing_df))"

definition existing_titles :: "patent list \<Rightarrow> string set" where
  "existing_titles existing_df =
     set (dropna (map (\<lambda>r. norm_title (Title r)) (restandardized existing_df)))"

text \<open>
  \<^verbatim>\<open>Series.isin(values)\<close> on the two helper columns of the new rows; a missing
  title key is in no set of strings.
\<close>

definition mask :: "patent list \<Rightarrow> patent \<Rightarrow> bool" where
  "mask existing_df r =
     (\<not> (normalize_app_num (ApplicationNumber r) \<in> existing_apps existing_df
         \<or> (case norm_title (Title r) of
               None \<Rightarrow> False
             | Some k \<Rightarrow> k \<in> existing_titles existing_df)))"

definition truly_new :: "patent list \<Rightarrow> patent list \<Rightarrow> patent list" where
  "truly_new new_df existing_df = filter (mask existing_df) new_df"

definition max_id :: "patent list \<Rightarrow> int" where
  "max_id existing_df =
     (case map ResourceId (restandardized existing_df) of
        [] \<Rightarrow> 50000
      | i # ids \<Rightarrow> fold max ids i)"

definition merge_with_existing :: "patent list \<Rightarrow> patent list \<Rightarrow> patent list" where
  "merge_with_existing new_df existing_df =
     (let combined = restandardized existing_df
                       @ assign_ids (max_id existing_df + 1) (truly_new new_df existing_df)
      in clean_text_fields (standardize_institutions combined))"

text \<open>
  The caller (\<^verbatim>\<open>app.py\<close>) reports the number of new records as
  \<^verbatim>\<open>len(merged_df) - initial_count\<close>.
\<close>

definition new_added :: "patent list \<Rightarrow> patent list \<Rightarrow> int" where
  "new_added new_df existing_df =
     int (length (merge_with_existing new_df existing_df)) - int (length existing_df)"

section \<open>Name classification (\<^verbatim>\<open>LensExtractor._is_organization\<close>)\<close>

definition org_patterns :: "string list" where
  "org_patterns = [''&'', ''and'', '','', ''.'', ''of'', ''for'', ''the'']"

definition is_organization :: "string \<Rightarrow> bool" where
  "is_organization name =
     (if name = [] then False
      else
        let name_lower = py_strip (py_lower name) in
        if list_ex (\<lambda>keyword. py_in keyword name_lower) ORGANIZATION_KEYWORDS then True
        else if list_ex (\<lambda>org. py_in (py_lower org) name_lower
                               \<or> py_in name_lower (py_lower org)) QATAR_ORGANIZATIONS
        then True
        else
          let words = py_split name in
          if 2 \<le> length words \<and> length words \<le> 4
             \<and> list_all (\<lambda>w. length w < 15) words
             \<and> \<not> list_ex is_digit_c name
             \<and> \<not> list_ex (\<lambda>x. py_in x name_lower) org_patterns
             \<and> \<not> py_in ''qatar'' name_lower
          then False
          else True)"

section \<open>Specification-level notions\<close>

text \<open>
  First occurrence wins, in the words of the specification: the row at index \<open>i\<close> is
  kept exactly when no row before it has the same key, and the rows kept stay in their
  order.
\<close>

definition first_occurrences :: "('a \<Rightarrow> 'k) \<Rightarrow> 'a list \<Rightarrow> 'a list" where
  "first_occurrences key xs =
     map (\<lambda>i. xs ! i)
         (filter (\<lambda>i. list_all (\<lambda>j. key (xs ! j) \<noteq> key (xs ! i)) [0..<i]) [0..<length xs])"

text \<open>A row with every text column empty, from which the examples below are built.\<close>

definition blank_row :: patent where
  "blank_row = \<lparr>ResourceId = 0, ApplicationNumber = Some [], ApplicationDate = Some [],
     PatentYear = Some [], Title = Some [], Abstract = Some [], Applicants = Some [],
     Inventors = Some [], Owners = Some [], PatentUrl = Some [], DocumentTypeId = Some 3,
     DocumentTypeName = Some ''Patent Application'', LegalStatusName = Some ''PENDING'',
     Source = Some ''EPO'', ExtractedDate = Some ''2024-01-01''\<rparr>"

text \<open>
  A batch in which the second row repeats the application number of the first and the
  third repeats its title in another case.
\<close>

definition dup_rows :: "patent list" where
  "dup_rows =
     [blank_row\<lparr>ApplicationNumber := Some ''EP1'', Title := Some ''Widget''\<rparr>,
      blank_row\<lparr>ApplicationNumber := Some ''EP1'', Title := Some ''Gadget''\<rparr>,
      blank_row\<lparr>ApplicationNumber := Some ''EP2'', Title := Some ''WIDGET''\<rparr>,
      blank_row\<lparr>ApplicationNumber := Some ''EP3'', Title := Some ''Gadget''\<rparr>]"

text \<open>
  A small pattern table in which the general pattern stands before the specific one.
\<close>

definition fixture_standards :: "(regex \<times> string) list" where
  "fixture_standards =
     [(Lit ''qatar'', ''General''),
      (cat [Lit ''qatar'', Star Spc, Lit ''university''], ''Specific'')]"

text \<open>Trimming at the right end only, for the proofs about \<^verbatim>\<open>strip\<close>.\<close>

definition rstrip_where :: "(char \<Rightarrow> bool) \<Rightarrow> string \<Rightarrow> string" where
  "rstrip_where P s = rev (dropWhile P (rev s))"

text \<open>
  An existing row as the merge returns it: standardised and cleaned at the start of the
  merge and once more in the final pass. Only the six columns written here can differ
  from the row as it was.
\<close>

definition renormalized :: "patent \<Rightarrow> patent" where
  "renormalized r =
     r\<lparr>Title := Some (clean_text (Title r)),
       Abstract := Some (clean_text (Abstract r)),
       ApplicationNumber := Some (clean_text (ApplicationNumber r)),
       Applicants := Some (clean_name_field (Some (clean_name_field (Applicants r)))),
       Inventors := Some (clean_name_field (Some (clean_name_field (Inventors r)))),
       Owners := Some (clean_name_field (Some (clean_name_field (Owners r))))\<rparr>"

text \<open>A new row as the merge returns it: numbered, then standardised and cleaned once.\<close>

definition finalized :: "patent \<Rightarrow> patent" where
  "finalized r = clean_text_row (standardize_row r)"

text \<open>
  An existing dataset of one row and a batch of three: the first new row repeats the
  application number (written differently), the second the title (in another case),
  the third neither.
\<close>

definition one_existing :: "patent list" where
  "one_existing =
     [blank_row\<lparr>ResourceId := 7, ApplicationNumber := Some ''EP 1-2'',
                 Title := Some ''Widget''\<rparr>]"

definition three_new :: "patent list" where
  "three_new =
     [blank_row\<lparr>ApplicationNumber := Some ''ep12'', Title := Some ''Other''\<rparr>,
      blank_row\<lparr>ApplicationNumber := Some ''X9'', Title := Some ''WIDGET''\<rparr>,
      blank_row\<lparr>ApplicationNumber := Some ''X10'', Title := Some ''Gadget''\<rparr>]"

text \<open>An existing row whose title was stored with a space in front.\<close>

definition untrimmed_row :: patent where
  "untrimmed_row = blank_row\<lparr>ResourceId := 7, Title := Some '' Widget''\<rparr>"

text \<open>
  The literals a match of a pattern can start with (the empty literal when the pattern
  does not start with one), and whether two literals can both start one string when
  case is ignored. They serve to show that no name matches a pattern of each table.
\<close>

fun leads :: "regex \<Rightarrow> string list" where
  "leads (Lit w) = [w]"
| "leads (Alt r1 r2) = leads r1 @ leads r2"
| "leads (Cat Bol r2) = leads r2"
| "leads (Cat r1 r2) = leads r1"
| "leads r = [[]]"

fun agree :: "string \<Rightarrow> string \<Rightarrow> bool" where
  "agree [] v = True"
| "agree (a # w) [] = True"
| "agree (a # w) (c # v) = (lower_c a = lower_c c \<and> agree w v)"

section \<open>Facts about the string primitives\<close>

lemmas char_tables = ascii_uppercase_def ascii_lowercase_def ascii_digits_def ascii_whitespace_def

lemma lower_c_idem: "lower_c (lower_c c) = lower_c c"
  by (auto simp add: lower_c_def char_tables)

lemma is_space_lower_c: "is_space (lower_c c) = is_space c"
  by (auto simp add: lower_c_def is_space_def char_tables)

lemma is_space_upper_c: "is_space (upper_c c) = is_space c"
  by (auto simp add: upper_c_def is_space_def char_tables)

lemma is_word_lower_c: "is_word_c (lower_c c) = is_word_c c"
  by (auto simp add: lower_c_def is_word_c_def is_alpha_c_def is_upper_c_def is_lower_c_def
        is_digit_c_def char_tables)

lemma lower_c_newline: "lower_c c = CHR 0x0A \<longleftrightarrow> c = CHR 0x0A"
  by (auto simp add: lower_c_def char_tables)

lemma strip_where_alt: "strip_where P s = rstrip_where P (dropWhile P s)"
  by (simp add: strip_where_def rstrip_where_def)

lemma rstrip_where_Cons:
  "rstrip_where P (c # cs) = (if P c \<and> (\<forall>x\<in>set cs. P x) then [] else c # rstrip_where P cs)"
  by (auto simp add: rstrip_where_def dropWhile_append)

lemma rstrip_where_Nil: "rstrip_where P [] = []"
  by (simp add: rstrip_where_def)

lemma rstrip_dropWhile_commute:
  "rstrip_where P (dropWhile P s) = dropWhile P (rstrip_where P s)"
proof (induction s)
  case Nil
  show ?case by (simp add: rstrip_where_Nil)
next
  case (Cons c cs)
  show ?case
  proof (cases "P c")
    case True
    show ?thesis
    proof (cases "\<forall>x\<in>set cs. P x")
      case all: True
      then have e: "dropWhile P cs = []" by simp
      from True all show ?thesis
        by (simp add: rstrip_where_Cons rstrip_where_Nil e)
    next
      case False
      with True Cons.IH show ?thesis
        by (auto simp add: rstrip_where_Cons)
    qed
  next
    case False
    then show ?thesis
      by (simp add: rstrip_where_Cons)
  qed
qed

lemma rstrip_where_idem: "rstrip_where P (rstrip_where P s) = rstrip_where P s"
  by (simp add: rstrip_where_def)

lemma strip_where_idem: "strip_where P (strip_where P s) = strip_where P s"
proof -
  have "strip_where P (strip_where P s)
          = rstrip_where P (dropWhile P (rstrip_where P (dropWhile P s)))"
    by (simp add: strip_where_alt)
  also have "\<dots> = rstrip_where P (rstrip_where P (dropWhile P (dropWhile P s)))"
    by (simp add: rstrip_dropWhile_commute)
  also have "\<dots> = strip_where P s"
    by (simp add: rstrip_where_idem strip_where_alt)
  finally show ?thesis .
qed

lemma dropWhile_map_filter_dropWhile:
  assumes "\<And>c. P (f c) = P c"
  shows "dropWhile P (map f (filter Q (dropWhile P s))) = dropWhile P (map f (filter Q s))"
  using assms by (induction s) auto

lemma rstrip_map_filter_rstrip:
  assumes "\<And>c. P (f c) = P c"
  shows "rstrip_where P (map f (filter Q (rstrip_where P s))) = rstrip_where P (map f (filter Q s))"
proof -
  have "dropWhile P (map f (filter Q (dropWhile P (rev s)))) = dropWhile P (map f (filter Q (rev s)))"
    using assms by (rule dropWhile_map_filter_dropWhile)
  then show ?thesis
    by (simp add: rstrip_where_def rev_map rev_filter)
qed

lemma strip_map_filter_strip:
  assumes "\<And>c. P (f c) = P c"
  shows "strip_where P (map f (filter Q (strip_where P s))) = strip_where P (map f (filter Q s))"
proof -
  let ?g = "\<lambda>x. map f (filter Q x)"
  have "strip_where P (?g (strip_where P s))
          = dropWhile P (rstrip_where P (?g (rstrip_where P (dropWhile P s))))"
    by (simp add: strip_where_alt rstrip_dropWhile_commute)
  also have "\<dots> = dropWhile P (rstrip_where P (?g (dropWhile P s)))"
    using assms by (simp add: rstrip_map_filter_rstrip)
  also have "\<dots> = rstrip_where P (dropWhile P (?g (dropWhile P s)))"
    by (simp add: rstrip_dropWhile_commute)
  also have "\<dots> = rstrip_where P (dropWhile P (?g s))"
    using assms by (simp add: dropWhile_map_filter_dropWhile)
  finally show ?thesis
    by (simp add: strip_where_alt)
qed

lemma clean_text_idem: "clean_text (Some (clean_text x)) = clean_text x"
  by (auto simp add: clean_text_def py_strip_def strip_where_idem split: option.splits)

lemma normalize_app_num_filter:
  "normalize_app_num (Some v) =
     py_strip (py_upper (filter (\<lambda>c. c \<notin> {CHR '' '', CHR ''.'', CHR ''-''}) v))"
proof -
  have "(\<lambda>x. x \<noteq> CHR ''-'' \<and> x \<noteq> CHR ''.'' \<and> x \<noteq> CHR '' '') = (\<lambda>c. c \<notin> {CHR '' '', CHR ''.'', CHR ''-''})"
    by auto
  then show ?thesis
    by (simp add: normalize_app_num_def remove_char_def)
qed

lemma normalize_app_num_clean_text:
  "normalize_app_num (Some (clean_text x)) = normalize_app_num x"
proof (cases x)
  case None
  then show ?thesis
    by (simp add: clean_text_def normalize_app_num_def remove_char_def py_upper_def py_strip_def
          strip_where_def)
next
  case (Some v)
  have "strip_where is_space (map upper_c (filter Q (strip_where is_space v)))
        = strip_where is_space (map upper_c (filter Q v))" for Q
    by (rule strip_map_filter_strip) (rule is_space_upper_c)
  with Some show ?thesis
    by (simp add: clean_text_def normalize_app_num_filter py_strip_def py_upper_def)
qed

section \<open>The date step\<close>

lemma format_dates_nth:
  "i < length df \<Longrightarrow>
     format_dates df ! i =
       (df ! i)\<lparr>ApplicationDate := Some (format_date (ApplicationDate (df ! i))),
                 PatentYear := Some (take 4 (format_date (ApplicationDate (df ! i))))\<rparr>"
  by (simp add: format_dates_def)

text \<open>
  C10. After \<^verbatim>\<open>_format_dates\<close>, every row holds the reformatted date, its
  \<^verbatim>\<open>PatentYear\<close> is the first 4 characters of that date, and the year is empty when
  the date is empty (as it is for a row whose date was empty or missing).
\<close>

theorem patent_year_from_date:
  "length (format_dates df) = length df \<and>
   (\<forall>i < length df.
      ApplicationDate (format_dates df ! i) = Some (format_date (ApplicationDate (df ! i))) \<and>
      PatentYear (format_dates df ! i)
        = map_option (take 4) (ApplicationDate (format_dates df ! i)) \<and>
      (ApplicationDate (format_dates df ! i) = Some [] \<longrightarrow>
         PatentYear (format_dates df ! i) = Some []) \<and>
      (ApplicationDate (df ! i) \<in> {None, Some []} \<longrightarrow>
         ApplicationDate (format_dates df ! i) = Some [] \<and>
         PatentYear (format_dates df ! i) = Some []))"
  by (auto simp add: format_dates_nth format_dates_def format_date_def)

theorem patent_year_from_date_witness:
  "ApplicationDate (format_dates [blank_row\<lparr>ApplicationDate := Some ''20240131''\<rparr>, blank_row] ! 0)
     = Some ''2024-01-31'' \<and>
   PatentYear (format_dates [blank_row\<lparr>ApplicationDate := Some ''20240131''\<rparr>, blank_row] ! 0)
     = Some ''2024'' \<and>
   PatentYear (format_dates [blank_row\<lparr>ApplicationDate := Some ''20240131''\<rparr>, blank_row] ! 1)
     = Some []"
proof -
  let ?df = "[blank_row\<lparr>ApplicationDate := Some ''20240131''\<rparr>, blank_row]"
  have d: "format_date (Some ''20240131'') = ''2024-01-31''"
    by code_simp
  have l0: "0 < length ?df" and l1: "1 < length ?df"
    by simp_all
  from patent_year_from_date [of ?df] l0 l1
  have "ApplicationDate (format_dates ?df ! 0) = Some (format_date (ApplicationDate (?df ! 0)))"
    and "PatentYear (format_dates ?df ! 0)
           = map_option (take 4) (ApplicationDate (format_dates ?df ! 0))"
    and "ApplicationDate (?df ! 1) \<in> {None, Some []} \<longrightarrow>
           PatentYear (format_dates ?df ! 1) = Some []"
    by blast+
  then show ?thesis
    by (simp add: d blank_row_def)
qed

section \<open>The deduplicator\<close>

lemma upt_Suc_shift: "[0..<Suc n] = 0 # map Suc [0..<n]"
  by (simp add: upt_conv_Cons map_Suc_upt del: upt_Suc)

lemma drop_duplicates_from_index:
  "drop_duplicates_from key seen xs =
     map (\<lambda>i. xs ! i)
       (filter (\<lambda>i. key (xs ! i) \<notin> seen \<and> (\<forall>j<i. key (xs ! j) \<noteq> key (xs ! i)))
               [0..<length xs])"
proof (induction xs arbitrary: seen)
  case Nil
  show ?case by simp
next
  case (Cons x xs)
  have all_Suc: "(\<forall>j<Suc i. P j) \<longleftrightarrow> P 0 \<and> (\<forall>j<i. P (Suc j))"
    for i and P :: "nat \<Rightarrow> bool"
    by (metis less_Suc_eq_0_disj)
  show ?case
  proof (cases "key x \<in> seen")
    case True
    have "filter (\<lambda>i. key (xs ! i) \<notin> seen \<and> key x \<noteq> key (xs ! i)
                      \<and> (\<forall>j<i. key (xs ! j) \<noteq> key (xs ! i))) [0..<length xs]
        = filter (\<lambda>i. key (xs ! i) \<notin> seen \<and> (\<forall>j<i. key (xs ! j) \<noteq> key (xs ! i)))
                 [0..<length xs]"
      using True by (intro filter_cong) auto
    with True Cons.IH [of seen] show ?thesis
      by (simp add: upt_Suc_shift filter_map o_def all_Suc del: upt_Suc)
  next
    case False
    have "filter (\<lambda>i. key (xs ! i) \<notin> seen \<and> key x \<noteq> key (xs ! i)
                      \<and> (\<forall>j<i. key (xs ! j) \<noteq> key (xs ! i))) [0..<length xs]
        = filter (\<lambda>i. key (xs ! i) \<notin> insert (key x) seen
                      \<and> (\<forall>j<i. key (xs ! j) \<noteq> key (xs ! i))) [0..<length xs]"
      by (intro filter_cong) auto
    with False Cons.IH [of "insert (key x) seen"] show ?thesis
      by (simp add: upt_Suc_shift filter_map o_def all_Suc del: upt_Suc)
  qed
qed

lemma drop_duplicates_first_occurrences:
  "drop_duplicates key xs = first_occurrences key xs"
  by (simp add: drop_duplicates_def first_occurrences_def drop_duplicates_from_index
                list_all_iff Ball_def)

lemma subseq_drop_duplicates_from: "subseq (drop_duplicates_from key seen xs) xs"
  by (induction xs arbitrary: seen) auto

lemma subseq_drop_duplicates: "subseq (drop_duplicates key xs) xs"
  by (simp add: drop_duplicates_def subseq_drop_duplicates_from)

text \<open>
  C9. \<^verbatim>\<open>_deduplicate\<close> is two first-occurrence-wins passes, the second over what
  the first left: pass 1 compares \<^verbatim>\<open>ApplicationNumber\<close> as it stands, pass 2 the
  lower-cased first 100 characters of \<^verbatim>\<open>Title\<close>. The survivors are a subsequence
  of the batch: they keep their relative order.
\<close>

theorem deduplicate_two_passes:
  "deduplicate df =
     first_occurrences (\<lambda>r. norm_title (Title r)) (first_occurrences ApplicationNumber df) \<and>
   norm_title (Some t) = Some (take 100 (py_lower t)) \<and>
   subseq (deduplicate df) df"
proof -
  have "subseq (deduplicate df) (drop_duplicates ApplicationNumber df)"
    by (simp add: deduplicate_def subseq_drop_duplicates)
  then have "subseq (deduplicate df) df"
    using subseq_drop_duplicates subseq_order.order_trans by blast
  then show ?thesis
    by (simp add: deduplicate_def drop_duplicates_first_occurrences norm_title_def)
qed

theorem deduplicate_two_passes_witness:
  "deduplicate dup_rows = [dup_rows ! 0, dup_rows ! 3]"
proof -
  from deduplicate_two_passes [of dup_rows]
  have "deduplicate dup_rows =
          first_occurrences (\<lambda>r. norm_title (Title r))
            (first_occurrences ApplicationNumber dup_rows)"
    by blast
  also have "\<dots> = [dup_rows ! 0, dup_rows ! 3]"
    by code_simp
  finally show ?thesis .
qed

section \<open>The name standardiser\<close>

lemma is_garbage_iff: "is_garbage G s \<longleftrightarrow> (\<exists>g\<in>set G. re_match True g s)"
  by (induction G) auto

lemma trim_name_Nil: "trim_name [] = []"
  by (simp add: trim_name_def py_strip_def py_strip_chars_def strip_where_def)

lemma standardize_garbage:
  assumes "is_garbage G (py_strip (py_lower (trim_name name)))"
  shows "standardize_name_with G S name = []"
  using assms by (simp add: standardize_name_with_def Let_def)

text \<open>
  Matching with \<^verbatim>\<open>re.IGNORECASE\<close> does not see the case of the input, and
  lower-casing commutes with trimming: the test the code makes on the lower-cased name
  is a test on the name as written.
\<close>

lemma cclass_ok_lower_c: "cclass_ok True a (lower_c c) = cclass_ok True a c"
  by (cases a) (simp_all add: lower_c_idem lower_c_newline is_space_lower_c is_word_lower_c)

lemma lit_rest_lower:
  "lit_rest True w (map lower_c s) = map_option (map lower_c) (lit_rest True w s)"
proof (induction w arbitrary: s)
  case Nil
  show ?case by simp
next
  case (Cons d ds)
  show ?case
  proof (cases s)
    case Nil
    then show ?thesis by simp
  next
    case (Cons c cs)
    with Cons.IH [of cs] cclass_ok_lower_c [of "Chr d" c] show ?thesis
      by simp
  qed
qed

lemma star_ends_lower:
  "star_ends True a (map lower_c s) = map (\<lambda>(b, t). (b, map lower_c t)) (star_ends True a s)"
  by (induction s) (simp_all add: cclass_ok_lower_c)

lemma map_lower_c_newline: "map lower_c s = [CHR 0x0A] \<longleftrightarrow> s = [CHR 0x0A]"
  by (cases s) (auto simp add: lower_c_newline)

lemma ends_lower:
  "ends True r (b, map lower_c s) = map (\<lambda>(b, t). (b, map lower_c t)) (ends True r (b, s))"
proof (induction r arbitrary: b s)
  case (Lit w)
  show ?case by (cases "lit_rest True w s") (simp_all add: lit_rest_lower)
next
  case (Cls a)
  show ?case by (cases s) (simp_all add: cclass_ok_lower_c)
next
  case (Star a)
  show ?case by (simp add: star_ends_lower)
next
  case (Plus a)
  show ?case by (simp add: star_ends_lower)
next
  case (Opt r)
  then show ?case by simp
next
  case (Alt r1 r2)
  then show ?case by simp
next
  case (Cat r1 r2)
  have "concat (map (ends True r2) (map (\<lambda>(b, t). (b, map lower_c t)) xs))
          = map (\<lambda>(b, t). (b, map lower_c t)) (concat (map (ends True r2) xs))" for xs
    by (induction xs) (auto simp add: Cat.IH(2))
  with Cat.IH(1) [of b s] show ?case by simp
next
  case Bol
  show ?case by simp
next
  case Eol
  show ?case by (simp add: map_lower_c_newline)
qed

lemma re_match_lower: "re_match True r (py_lower s) = re_match True r s"
  by (simp add: re_match_def py_lower_def ends_lower)

lemma py_strip_lower: "py_strip (py_lower s) = py_lower (py_strip s)"
proof -
  have "is_space \<circ> lower_c = is_space"
    by (rule ext) (simp add: is_space_lower_c)
  then show ?thesis
    by (simp add: py_strip_def py_lower_def strip_where_def dropWhile_map rev_map)
qed

text \<open>
  C8. Whatever the raw name, its case and the punctuation around it: when the name left
  after trimming, country-code removal and punctuation stripping matches a pattern of
  \<^verbatim>\<open>GARBAGE_FRAGMENTS\<close> (ignoring case, as the code matches),
  \<^verbatim>\<open>standardize_name\<close> returns the empty string.
\<close>

theorem garbage_fragment_discarded:
  assumes "g \<in> set GARBAGE_FRAGMENTS"
    and "re_match True g (py_strip (trim_name name))"
  shows "standardize_name name = []"
proof -
  from assms(2) have "re_match True g (py_strip (py_lower (trim_name name)))"
    by (simp add: py_strip_lower re_match_lower)
  with assms(1) have "is_garbage GARBAGE_FRAGMENTS (py_strip (py_lower (trim_name name)))"
    by (auto simp: is_garbage_iff)
  then show ?thesis
    unfolding standardize_name_def by (rule standardize_garbage)
qed

theorem garbage_fragment_discarded_witness:
  "standardize_name ''  AND Community Development [QA],. '' = []"
proof -
  have g: "GARBAGE_FRAGMENTS ! 5 \<in> set GARBAGE_FRAGMENTS"
    by (rule nth_mem) (simp add: GARBAGE_FRAGMENTS_def)
  have m: "re_match True (GARBAGE_FRAGMENTS ! 5)
             (py_strip (trim_name ''  AND Community Development [QA],. ''))"
    by code_simp
  from garbage_fragment_discarded [OF g m] show ?thesis .
qed

lemma match_standard_first:
  "i < length S \<Longrightarrow> re_match False (fst (S ! i)) nl \<Longrightarrow>
   \<forall>j<i. \<not> re_match False (fst (S ! j)) nl \<Longrightarrow>
   match_standard (take (Suc i) S @ T) nl = Some (snd (S ! i))"
proof (induction S arbitrary: i)
  case Nil
  then show ?case by simp
next
  case (Cons e S)
  obtain p c where e: "e = (p, c)" by (cases e)
  show ?case
  proof (cases i)
    case 0
    with Cons.prems e show ?thesis by simp
  next
    case (Suc k)
    with Cons.prems have "k < length S" "re_match False (fst (S ! k)) nl"
      "\<forall>j<k. \<not> re_match False (fst (S ! j)) nl" "\<not> re_match False p nl"
      using e by auto
    with Cons.IH [of k] Suc e show ?thesis by simp
  qed
qed

text \<open>
  No name matches a pattern of \<^verbatim>\<open>INSTITUTION_STANDARDS\<close> and a pattern of
  \<^verbatim>\<open>GARBAGE_FRAGMENTS\<close>: every pattern starts with a literal, and no literal of
  the one table can start a string together with a literal of the other. So a name
  that matches a pattern of the table is not empty and is not discarded before the
  table is read.
\<close>

lemma ends_Cat_nonempty: "ends ic (Cat r1 r2) st \<noteq> [] \<Longrightarrow> ends ic r1 st \<noteq> []"
  by (cases "ends ic r1 st") auto

lemma leads_Cat: "r1 \<noteq> Bol \<Longrightarrow> leads (Cat r1 r2) = leads r1"
  by (cases r1) auto

lemma leads_sound:
  "ends ic r (b, s) \<noteq> [] \<Longrightarrow> \<exists>w\<in>set (leads r). lit_rest ic w s \<noteq> None"
proof (induction r arbitrary: b s)
  case (Lit w)
  then show ?case by (cases "lit_rest ic w s") auto
next
  case (Alt r1 r2)
  then show ?case by fastforce
next
  case (Cat r1 r2)
  show ?case
  proof (cases "r1 = Bol")
    case True
    with Cat.prems have "ends ic r2 (b, s) \<noteq> []"
      by (auto split: if_splits)
    with Cat.IH(2) True show ?thesis by simp
  next
    case False
    from Cat.prems have "ends ic r1 (b, s) \<noteq> []"
      by (rule ends_Cat_nonempty)
    with Cat.IH(1) False show ?thesis
      by (simp add: leads_Cat)
  qed
qed simp_all

lemma agree_sound:
  "lit_rest False w s \<noteq> None \<Longrightarrow> lit_rest True v s \<noteq> None \<Longrightarrow> agree w v"
proof (induction w v arbitrary: s rule: agree.induct)
  case (3 a w c v)
  then show ?case
    by (cases s) (auto split: if_splits)
qed auto

lemma tables_disjoint:
  "list_all (\<lambda>(p, c). list_all (\<lambda>g. list_all (\<lambda>w. w \<noteq> [] \<and> list_all (\<lambda>v. \<not> agree w v) (leads g))
                                              (leads p)) GARBAGE_FRAGMENTS)
     INSTITUTION_STANDARDS"
  by code_simp

lemma standard_not_garbage:
  assumes "i < length INSTITUTION_STANDARDS"
    and "re_match False (fst (INSTITUTION_STANDARDS ! i)) s"
  shows "\<not> is_garbage GARBAGE_FRAGMENTS s \<and> s \<noteq> []"
proof -
  obtain p c where pc: "INSTITUTION_STANDARDS ! i = (p, c)"
    by (cases "INSTITUTION_STANDARDS ! i")
  with assms(1) have mem: "(p, c) \<in> set INSTITUTION_STANDARDS"
    by (metis nth_mem)
  from assms(2) pc obtain w where w: "w \<in> set (leads p)" "lit_rest False w s \<noteq> None"
    using leads_sound [of False p True s] by (auto simp add: re_match_def)
  have d: "\<forall>g\<in>set GARBAGE_FRAGMENTS. w \<noteq> [] \<and> (\<forall>v\<in>set (leads g). \<not> agree w v)"
    using tables_disjoint mem w(1) by (fastforce simp add: list_all_iff)
  have "GARBAGE_FRAGMENTS \<noteq> []"
    by (simp add: GARBAGE_FRAGMENTS_def)
  then have "hd GARBAGE_FRAGMENTS \<in> set GARBAGE_FRAGMENTS"
    by (rule hd_in_set)
  with d have "w \<noteq> []" by blast
  with w(2) have "s \<noteq> []"
    by (cases w; cases s) auto
  moreover have "\<not> is_garbage GARBAGE_FRAGMENTS s"
  proof
    assume "is_garbage GARBAGE_FRAGMENTS s"
    then obtain g where g: "g \<in> set GARBAGE_FRAGMENTS" "re_match True g s"
      by (auto simp add: is_garbage_iff)
    then obtain v where v: "v \<in> set (leads g)" "lit_rest True v s \<noteq> None"
      using leads_sound [of True g True s] by (auto simp add: re_match_def)
    from w(2) v(2) have "agree w v" by (rule agree_sound)
    with d g(1) v(1) show False by blast
  qed
  ultimately show ?thesis by blast
qed

lemma earliest_entry_decides:
  assumes "trim_name name \<noteq> []"
    and "\<not> is_garbage G (py_strip (py_lower (trim_name name)))"
    and "i < length S"
    and "re_match False (fst (S ! i)) (py_strip (py_lower (trim_name name)))"
    and "list_all (\<lambda>j. \<not> re_match False (fst (S ! j)) (py_strip (py_lower (trim_name name))))
           [0..<i]"
  shows "standardize_name_with G S name = snd (S ! i) \<and>
         standardize_name_with G (take (Suc i) S @ T) name = snd (S ! i)"
proof -
  let ?nl = "py_strip (py_lower (trim_name name))"
  from assms(5) have none: "\<forall>j<i. \<not> re_match False (fst (S ! j)) ?nl"
    by (simp add: list_all_iff)
  from assms(1) have ne: "name \<noteq> []"
    using trim_name_Nil by auto
  have "match_standard (take (Suc i) S @ T') ?nl = Some (snd (S ! i))" for T'
    using assms(3,4) none by (rule match_standard_first)
  from this [of T] this [of "drop (Suc i) S"] show ?thesis
    using assms(1,2) ne by (simp add: standardize_name_with_def Let_def)
qed

text \<open>
  In the small table the general pattern is declared first and wins over the specific
  one, which matches too.
\<close>

lemma fixture_general_wins:
  "standardize_name_with GARBAGE_FRAGMENTS fixture_standards ''QATAR UNIVERSITY'' = ''General'' \<and>
   re_match False (fst (fixture_standards ! 0)) ''qatar university'' \<and>
   re_match False (fst (fixture_standards ! 1)) ''qatar university''"
  by code_simp
text \<open>
  C4. When \<open>i\<close> is the first entry of \<^verbatim>\<open>INSTITUTION_STANDARDS\<close> whose pattern
  matches the lower-cased name, \<^verbatim>\<open>standardize_name\<close> returns the canonical name of
  entry \<open>i\<close>, whichever later patterns match too; and the result is the same when the
  entries after \<open>i\<close> are replaced by any others \<open>T\<close>, so none of them is consulted.
  The name \<^verbatim>\<open>"Qatar University, [QA]"\<close> matches entries 27 and 28 and gets the
  name of entry 27.
\<close>

theorem first_match_wins:
  assumes "i < length INSTITUTION_STANDARDS"
    and "re_match False (fst (INSTITUTION_STANDARDS ! i)) (py_strip (py_lower (trim_name name)))"
    and "list_all (\<lambda>j. \<not> re_match False (fst (INSTITUTION_STANDARDS ! j))
                           (py_strip (py_lower (trim_name name)))) [0..<i]"
  shows "standardize_name name = snd (INSTITUTION_STANDARDS ! i) \<and>
         standardize_name_with GARBAGE_FRAGMENTS (take (Suc i) INSTITUTION_STANDARDS @ T) name
           = snd (INSTITUTION_STANDARDS ! i)"
proof -
  let ?nl = "py_strip (py_lower (trim_name name))"
  from standard_not_garbage [OF assms(1,2)]
  have ng: "\<not> is_garbage GARBAGE_FRAGMENTS ?nl" and "?nl \<noteq> []"
    by blast+
  then have ne: "trim_name name \<noteq> []"
    by (auto simp add: py_strip_def py_lower_def strip_where_def)
  from earliest_entry_decides [OF ne ng assms(1,2,3)] show ?thesis
    by (simp add: standardize_name_def)
qed

theorem first_match_wins_witness:
  "standardize_name ''Qatar University, [QA]'' = ''Qatar University'' \<and>
   re_match False (fst (INSTITUTION_STANDARDS ! 27)) ''qatar university'' \<and>
   re_match False (fst (INSTITUTION_STANDARDS ! 28)) ''qatar university''"
proof -
  let ?n = "''Qatar University, [QA]''"
  have nl: "py_strip (py_lower (trim_name ?n)) = ''qatar university''"
    by code_simp
  have a3: "27 < length INSTITUTION_STANDARDS"
    by code_simp
  have a4: "re_match False (fst (INSTITUTION_STANDARDS ! 27))
              (py_strip (py_lower (trim_name ?n)))"
    by code_simp
  have a5: "list_all (\<lambda>j. \<not> re_match False (fst (INSTITUTION_STANDARDS ! j))
                            (py_strip (py_lower (trim_name ?n)))) [0..<27]"
    by code_simp
  have s27: "snd (INSTITUTION_STANDARDS ! 27) = ''Qatar University''"
    by code_simp
  have r1: "standardize_name ?n = ''Qatar University''"
    using first_match_wins [OF a3 a4 a5, of "[]"] s27 by simp
  have m28: "re_match False (fst (INSTITUTION_STANDARDS ! 28)) ''qatar university''"
    by code_simp
  from r1 a4 m28 show ?thesis
    unfolding nl by simp
qed

subsection \<open>The field cleaner\<close>

lemma norm_key_Nil: "norm_key [] = []"
  by (simp add: norm_key_def py_lower_def)

lemma clean_parts_eq:
  "clean_parts G S parts cleaned seen =
     cleaned @ drop_duplicates_from norm_key seen
                 (filter (\<lambda>p. p \<noteq> [] \<and> 2 \<le> length (norm_key p))
                         (map (standardize_name_with G S) parts))"
proof (induction parts arbitrary: cleaned seen)
  case Nil
  show ?case by simp
next
  case (Cons p0 parts)
  let ?p = "standardize_name_with G S p0"
  show ?case
  proof (cases "2 \<le> length (norm_key ?p)")
    case True
    then have "norm_key ?p \<noteq> []" "?p \<noteq> []" "length (norm_key ?p) > 1"
      using norm_key_Nil by auto
    with True show ?thesis
      by (simp add: Let_def Cons.IH del: One_nat_def)
  next
    case False
    then have "\<not> length (norm_key ?p) > 1"
      by simp
    with False show ?thesis
      by (simp add: Let_def Cons.IH del: One_nat_def)
  qed
qed

lemma norm_key_spec:
  "norm_key p = py_lower (filter (\<lambda>c. is_alpha_c c \<or> is_digit_c c) p)"
proof -
  have "(is_lower_c (lower_c c) \<or> is_digit_c (lower_c c)) \<longleftrightarrow> (is_alpha_c c \<or> is_digit_c c)"
    for c
    by (auto simp add: lower_c_def is_lower_c_def is_digit_c_def is_alpha_c_def is_upper_c_def
         ascii_uppercase_def ascii_lowercase_def ascii_digits_def)
  then show ?thesis
    by (simp add: norm_key_def py_lower_def filter_map o_def)
qed

text \<open>
  C7. \<^verbatim>\<open>clean_name_field\<close> splits the field at the semicolons, standardises each
  part, drops the empty results and those whose key has fewer than 2 characters, keeps
  the first result of each key and joins what is left with \<^verbatim>\<open>"; "\<close>. The key is the
  name lower-cased with every character that is no letter or digit removed. The field
  \<^verbatim>\<open>"ACME Corp; acme corp; ACME CORP."\<close> becomes the one entry \<^verbatim>\<open>"ACME Corp"\<close>.
\<close>

theorem clean_name_field_dedup:
  "clean_name_field (Some v) =
     py_join ''; ''
       (first_occurrences norm_key
          (filter (\<lambda>p. p \<noteq> [] \<and> 2 \<le> length (norm_key p))
                  (map standardize_name (py_split_on CHR '';'' v)))) \<and>
   norm_key p = py_lower (filter (\<lambda>c. is_alpha_c c \<or> is_digit_c c) p) \<and>
   clean_name_field (Some ''ACME Corp; acme corp; ACME CORP.'') = ''ACME Corp''"
proof -
  have ex: "clean_name_field (Some ''ACME Corp; acme corp; ACME CORP.'') = ''ACME Corp''"
    by code_simp
  have gen: "clean_name_field (Some v) =
     py_join ''; ''
       (first_occurrences norm_key
          (filter (\<lambda>p. p \<noteq> [] \<and> 2 \<le> length (norm_key p))
                  (map standardize_name (py_split_on CHR '';'' v))))"
  proof (cases "v = []")
    case True
    have "standardize_name [] = []"
      by (simp add: standardize_name_def standardize_name_with_def)
    with True show ?thesis
      by (simp add: clean_name_field_def clean_name_field_with_def py_split_on_def
            first_occurrences_def)
  next
    case False
    then show ?thesis
      by (simp add: clean_name_field_def clean_name_field_with_def clean_parts_eq
            standardize_name_def
            drop_duplicates_first_occurrences [unfolded drop_duplicates_def])
  qed
  from ex gen norm_key_spec show ?thesis by blast
qed

section \<open>The name classifier\<close>

lemma is_organization_empty: "is_organization [] = False"
  by (simp add: is_organization_def)

text \<open>
  C5. The guard of \<^verbatim>\<open>_is_organization\<close> rejects the empty name only. A name of
  spaces passes it, is trimmed to the empty string, and the empty string is a substring
  of the first known organisation: the function answers \<^verbatim>\<open>True\<close>.
\<close>

theorem is_organization_blank: "is_organization ''   '' = True"
  by code_simp

section \<open>The merge\<close>

lemma restandardized_map: "restandardized D = map (\<lambda>r. clean_text_row (standardize_row r)) D"
  by (simp add: restandardized_def clean_text_fields_def standardize_institutions_def)

lemma length_restandardized: "length (restandardized D) = length D"
  by (simp add: restandardized_map)

lemma assign_ids_map:
  assumes "\<And>r k. f (r\<lparr>ResourceId := k\<rparr>) = f r"
  shows "map f (assign_ids n xs) = map f xs"
  using assms by (induction xs arbitrary: n) auto

lemma length_assign_ids: "length (assign_ids n xs) = length xs"
  by (induction xs arbitrary: n) auto

lemma assign_ids_ResourceId:
  "map ResourceId (assign_ids n xs) = map (\<lambda>i. n + int i) [0..<length xs]"
proof (induction xs arbitrary: n)
  case Nil
  show ?case by simp
next
  case (Cons x xs)
  have "map (\<lambda>i. n + int i) [0..<Suc (length xs)]
          = n # map (\<lambda>i. n + 1 + int i) [0..<length xs]"
    by (simp add: upt_Suc_shift o_def del: upt_Suc)
  with Cons.IH [of "n + 1"] show ?case
    by (simp del: upt_Suc)
qed

lemma twice_is_renormalized:
  "clean_text_row (standardize_row (clean_text_row (standardize_row r))) = renormalized r"
  by (simp add: clean_text_row_def standardize_row_def renormalized_def clean_text_idem)

lemma merge_shape:
  "merge_with_existing B D =
     map renormalized D @ map finalized (assign_ids (max_id D + 1) (truly_new B D))"
  by (simp add: merge_with_existing_def restandardized_map clean_text_fields_def
        standardize_institutions_def twice_is_renormalized finalized_def o_def)

lemma length_merge:
  "length (merge_with_existing B D) = length D + length (truly_new B D)"
  by (simp add: merge_shape length_assign_ids)

lemma existing_apps_raw:
  "existing_apps D = (\<lambda>e. normalize_app_num (ApplicationNumber e)) ` set D"
  by (simp add: existing_apps_def restandardized_map clean_text_row_def standardize_row_def
        o_def normalize_app_num_clean_text)

lemma dropna_Some: "dropna (map (\<lambda>x. Some (f x)) xs) = map f xs"
  by (induction xs) auto

lemma existing_titles_raw:
  "existing_titles D = (\<lambda>e. take 100 (py_lower (clean_text (Title e)))) ` set D"
proof -
  have "map (\<lambda>r. norm_title (Title r)) (restandardized D)
          = map (\<lambda>e. Some (take 100 (py_lower (clean_text (Title e))))) D"
    by (simp add: restandardized_map clean_text_row_def standardize_row_def norm_title_def)
  then show ?thesis
    by (simp add: existing_titles_def dropna_Some)
qed

lemma mask_iff:
  "mask D r \<longleftrightarrow>
     normalize_app_num (ApplicationNumber r)
       \<notin> (\<lambda>e. normalize_app_num (ApplicationNumber e)) ` set (restandardized D) \<and>
     norm_title (Title r) \<notin> (\<lambda>e. norm_title (Title e)) ` set (restandardized D)"
proof -
  have t: "(\<lambda>e. norm_title (Title e)) ` set (restandardized D)
             = Some ` existing_titles D"
    by (simp add: existing_titles_raw restandardized_map clean_text_row_def standardize_row_def
          norm_title_def image_image)
  show ?thesis
    unfolding t
    by (cases "norm_title (Title r)") (auto simp add: mask_def existing_apps_def)
qed

lemma renormalized_keys:
  "normalize_app_num (ApplicationNumber (renormalized r)) = normalize_app_num (ApplicationNumber r)"
  "clean_text (Title (renormalized r)) = clean_text (Title r)"
  by (simp_all add: renormalized_def normalize_app_num_clean_text clean_text_idem)

lemma finalized_keys:
  "normalize_app_num (ApplicationNumber (finalized r)) = normalize_app_num (ApplicationNumber r)"
  by (simp add: finalized_def clean_text_row_def standardize_row_def normalize_app_num_clean_text)

lemma existing_apps_merge:
  "existing_apps (merge_with_existing B D) =
     existing_apps D \<union> (\<lambda>e. normalize_app_num (ApplicationNumber e)) ` set (truly_new B D)"
proof -
  have "set (map ApplicationNumber (assign_ids n xs)) = set (map ApplicationNumber xs)" for n xs
    by (simp add: assign_ids_map)
  then have "ApplicationNumber ` set (assign_ids n xs) = ApplicationNumber ` set xs" for n xs
    by simp
  then have "(\<lambda>e. normalize_app_num (ApplicationNumber e)) ` set (assign_ids n xs)
        = (\<lambda>e. normalize_app_num (ApplicationNumber e)) ` set xs" for n xs
    by (metis image_image)
  then show ?thesis
    by (simp add: existing_apps_raw merge_shape image_Un image_image renormalized_keys finalized_keys)
qed

lemma existing_titles_merge:
  "existing_titles D \<subseteq> existing_titles (merge_with_existing B D)"
  by (auto simp add: existing_titles_raw merge_shape image_Un image_image renormalized_keys)

lemma mask_merge_False:
  assumes "r \<in> set B"
  shows "\<not> mask (merge_with_existing B D) r"
proof (cases "mask D r")
  case True
  with assms have "r \<in> set (truly_new B D)"
    by (simp add: truly_new_def)
  then have "normalize_app_num (ApplicationNumber r) \<in> existing_apps (merge_with_existing B D)"
    by (auto simp add: existing_apps_merge)
  then show ?thesis
    by (simp add: mask_def)
next
  case False
  then show ?thesis
    using existing_titles_merge [of D B]
    by (auto simp add: mask_def existing_apps_merge split: option.splits)
qed

text \<open>
  C3. When a batch \<open>B\<close> has been merged into \<open>D\<close> and is merged again into the
  result, no row of \<open>B\<close> is truly new: every row either matched a key of \<open>D\<close>
  the first time, and that key is still there, or was added, and its own application
  number key is there now. The count the caller reports is 0.
\<close>

theorem second_merge_adds_nothing:
  "truly_new B (merge_with_existing B D) = [] \<and>
   new_added B (merge_with_existing B D) = 0"
proof -
  have "truly_new B (merge_with_existing B D) = []"
    by (simp add: truly_new_def filter_empty_conv mask_merge_False)
  then show ?thesis
    by (simp add: new_added_def length_merge)
qed

lemma truly_new_empty: "truly_new B [] = B"
  by (simp add: truly_new_def mask_def existing_apps_def existing_titles_def restandardized_map
        split: option.splits)

lemma max_id_empty: "max_id [] = 50000"
  by (simp add: max_id_def restandardized_map)

lemma ResourceId_finalized: "ResourceId (finalized r) = ResourceId r"
  by (simp add: finalized_def clean_text_row_def standardize_row_def)

lemma ResourceId_renormalized: "ResourceId (renormalized r) = ResourceId r"
  by (simp add: renormalized_def)

lemma add_standard_columns_ids:
  "map ResourceId (add_standard_columns df) = map (\<lambda>i. 50000 + int i) [0..<length df]"
  by (simp add: add_standard_columns_def o_def assign_ids_ResourceId [symmetric])

text \<open>
  C1. Merged into an empty existing dataset, the rows of a batch are all new and get
  the identifiers 50001, 50002, ... in batch order: the sequence is contiguous and
  ascending, but it starts one above the floor 50000, which \<^verbatim>\<open>merge_with_existing\<close>
  takes as the largest identifier in use. A batch of one row gets 50001, where
  \<^verbatim>\<open>_add_standard_columns\<close> gives the first row of a fresh batch 50000.
\<close>

theorem merge_into_empty_ids:
  "map ResourceId (merge_with_existing B []) = map (\<lambda>i. 50001 + int i) [0..<length B] \<and>
   map ResourceId (merge_with_existing [blank_row] []) = [50001]"
proof -
  have "map ResourceId (merge_with_existing B []) = map (\<lambda>i. 50001 + int i) [0..<length B]" for B
    using assign_ids_ResourceId [of 50001 B]
    by (simp add: merge_shape truly_new_empty max_id_empty o_def ResourceId_finalized)
  from this [of B] this [of "[blank_row]"] show ?thesis
    by simp
qed

lemma strip_where_none: "\<forall>c\<in>set s. \<not> P c \<Longrightarrow> strip_where P s = s"
proof -
  assume a: "\<forall>c\<in>set s. \<not> P c"
  then have "dropWhile P s = s"
    by (cases s) auto
  moreover from a have "dropWhile P (rev s) = rev s"
    by (cases "rev s") (auto simp add: rev_eq_Cons_iff)
  ultimately show ?thesis
    by (simp add: strip_where_def)
qed

lemma strip_upper_no_space:
  assumes "\<forall>c\<in>set v. is_space c \<longrightarrow> c = CHR '' ''"
  shows "py_strip (py_upper (filter (\<lambda>c. c \<notin> {CHR '' '', CHR ''.'', CHR ''-''}) v))
           = py_upper (filter (\<lambda>c. c \<notin> {CHR '' '', CHR ''.'', CHR ''-''}) v)"
proof -
  have "\<forall>c\<in>set (py_upper (filter (\<lambda>c. c \<notin> {CHR '' '', CHR ''.'', CHR ''-''}) v)).
          \<not> is_space c"
    using assms by (auto simp add: py_upper_def is_space_upper_c)
  then show ?thesis
    unfolding py_strip_def by (rule strip_where_none)
qed

text \<open>
  C2. A row of the batch is truly new exactly when its application-number key is not
  the key of any existing row and its title key is not the title key of any existing
  row, the existing rows being read after their re-standardisation; a match on either
  key excludes it. The application-number key is the number without spaces, periods
  and hyphens, in upper case, then trimmed (which changes nothing when the only
  whitespace in the number is the space); the title key is the lower-cased first 100
  characters. The rows the merge appends are the truly new ones.
\<close>

theorem truly_new_iff:
  "(r \<in> set (truly_new B D) \<longleftrightarrow>
      r \<in> set B \<and>
      normalize_app_num (ApplicationNumber r)
        \<notin> (\<lambda>e. normalize_app_num (ApplicationNumber e)) ` set (restandardized D) \<and>
      norm_title (Title r) \<notin> (\<lambda>e. norm_title (Title e)) ` set (restandardized D)) \<and>
   normalize_app_num (Some v) =
     py_strip (py_upper (filter (\<lambda>c. c \<notin> {CHR '' '', CHR ''.'', CHR ''-''}) v)) \<and>
   ((\<forall>c\<in>set v. is_space c \<longrightarrow> c = CHR '' '') \<longrightarrow>
      normalize_app_num (Some v) =
        py_upper (filter (\<lambda>c. c \<notin> {CHR '' '', CHR ''.'', CHR ''-''}) v)) \<and>
   norm_title (Some t) = Some (take 100 (py_lower t)) \<and>
   drop (length D) (merge_with_existing B D)
     = map finalized (assign_ids (max_id D + 1) (truly_new B D))"
proof -
  have "(\<forall>c\<in>set v. is_space c \<longrightarrow> c = CHR '' '') \<longrightarrow>
      normalize_app_num (Some v) =
        py_upper (filter (\<lambda>c. c \<notin> {CHR '' '', CHR ''.'', CHR ''-''}) v)"
    unfolding normalize_app_num_filter using strip_upper_no_space by blast
  moreover have "normalize_app_num (Some v) =
     py_strip (py_upper (filter (\<lambda>c. c \<notin> {CHR '' '', CHR ''.'', CHR ''-''}) v))"
    by (rule normalize_app_num_filter)
  moreover have "r \<in> set (truly_new B D) \<longleftrightarrow>
      r \<in> set B \<and>
      normalize_app_num (ApplicationNumber r)
        \<notin> (\<lambda>e. normalize_app_num (ApplicationNumber e)) ` set (restandardized D) \<and>
      norm_title (Title r) \<notin> (\<lambda>e. norm_title (Title e)) ` set (restandardized D)"
    by (simp add: truly_new_def mask_iff)
  moreover have "norm_title (Some t) = Some (take 100 (py_lower t))"
    by (simp add: norm_title_def)
  moreover have "drop (length D) (merge_with_existing B D)
     = map finalized (assign_ids (max_id D + 1) (truly_new B D))"
    by (simp add: merge_shape)
  ultimately show ?thesis by blast
qed

theorem truly_new_iff_witness:
  "three_new ! 0 \<notin> set (truly_new three_new one_existing) \<and>
   three_new ! 1 \<notin> set (truly_new three_new one_existing) \<and>
   three_new ! 2 \<in> set (truly_new three_new one_existing) \<and>
   normalize_app_num (Some ''EP 1-2'') = ''EP12''"
proof -
  let ?apps = "(\<lambda>e. normalize_app_num (ApplicationNumber e)) ` set (restandardized one_existing)"
  let ?titles = "(\<lambda>e. norm_title (Title e)) ` set (restandardized one_existing)"
  have k0: "normalize_app_num (ApplicationNumber (three_new ! 0)) \<in> ?apps"
    by code_simp
  have k1: "norm_title (Title (three_new ! 1)) \<in> ?titles"
    by code_simp
  have k2: "three_new ! 2 \<in> set three_new"
    "normalize_app_num (ApplicationNumber (three_new ! 2)) \<notin> ?apps"
    "norm_title (Title (three_new ! 2)) \<notin> ?titles"
    by code_simp+
  have sp: "\<forall>c\<in>set ''EP 1-2''. is_space c \<longrightarrow> c = CHR '' ''"
    by code_simp
  have up: "py_upper (filter (\<lambda>c. c \<notin> {CHR '' '', CHR ''.'', CHR ''-''}) ''EP 1-2'') = ''EP12''"
    by code_simp
  from truly_new_iff [of "three_new ! 0" three_new one_existing] k0
  have "three_new ! 0 \<notin> set (truly_new three_new one_existing)" by blast
  moreover from truly_new_iff [of "three_new ! 1" three_new one_existing] k1
  have "three_new ! 1 \<notin> set (truly_new three_new one_existing)" by blast
  moreover from truly_new_iff [of "three_new ! 2" three_new one_existing] k2
  have "three_new ! 2 \<in> set (truly_new three_new one_existing)" by blast
  moreover from truly_new_iff [of _ _ _ "''EP 1-2''"] sp
  have "normalize_app_num (Some ''EP 1-2'') =
          py_upper (filter (\<lambda>c. c \<notin> {CHR '' '', CHR ''.'', CHR ''-''}) ''EP 1-2'')"
    by blast
  then have "normalize_app_num (Some ''EP 1-2'') = ''EP12''"
    using up by (simp only:)
  ultimately show ?thesis by blast
qed

text \<open>
  C6, as stated, fails where an existing row is not in normal form: merging the empty
  batch into a dataset whose one row has a title with a space in front returns the row
  with the title trimmed, not the row as it was.
\<close>

theorem merge_changes_existing_row:
  "merge_with_existing [] [untrimmed_row] \<noteq> [untrimmed_row]"
  by code_simp

lemma renormalized_frame:
  "ResourceId (renormalized r) = ResourceId r \<and>
   ApplicationDate (renormalized r) = ApplicationDate r \<and>
   PatentYear (renormalized r) = PatentYear r \<and>
   PatentUrl (renormalized r) = PatentUrl r \<and>
   DocumentTypeId (renormalized r) = DocumentTypeId r \<and>
   DocumentTypeName (renormalized r) = DocumentTypeName r \<and>
   LegalStatusName (renormalized r) = LegalStatusName r \<and>
   Source (renormalized r) = Source r \<and>
   ExtractedDate (renormalized r) = ExtractedDate r"
  by (simp add: renormalized_def)

text \<open>
  C6, amended. The merged dataset is the existing rows in their order, each
  re-normalised (\<^verbatim>\<open>Title\<close>, \<^verbatim>\<open>Abstract\<close> and \<^verbatim>\<open>ApplicationNumber\<close> trimmed,
  \<^verbatim>\<open>Applicants\<close>, \<^verbatim>\<open>Inventors\<close> and \<^verbatim>\<open>Owners\<close> standardised again) with its
  \<^verbatim>\<open>ResourceId\<close> and every other column unchanged, followed by the newly numbered
  rows; existing rows already in normal form are returned as they were.
\<close>

theorem existing_rows_renormalized:
  "merge_with_existing B D =
     map renormalized D @ map finalized (assign_ids (max_id D + 1) (truly_new B D)) \<and>
   map ResourceId (take (length D) (merge_with_existing B D)) = map ResourceId D \<and>
   (ResourceId (renormalized r) = ResourceId r \<and>
    ApplicationDate (renormalized r) = ApplicationDate r \<and>
    PatentYear (renormalized r) = PatentYear r \<and>
    PatentUrl (renormalized r) = PatentUrl r \<and>
    DocumentTypeId (renormalized r) = DocumentTypeId r \<and>
    DocumentTypeName (renormalized r) = DocumentTypeName r \<and>
    LegalStatusName (renormalized r) = LegalStatusName r \<and>
    Source (renormalized r) = Source r \<and>
    ExtractedDate (renormalized r) = ExtractedDate r) \<and>
   ((\<forall>e\<in>set D. renormalized e = e) \<longrightarrow> take (length D) (merge_with_existing B D) = D)"
proof -
  have "(\<forall>e\<in>set D. renormalized e = e) \<longrightarrow> map renormalized D = D"
    by (simp add: map_idI)
  then show ?thesis
    using renormalized_frame [of r]
    by (simp add: merge_shape o_def ResourceId_renormalized)
qed

theorem existing_rows_renormalized_witness:
  "take (length one_existing) (merge_with_existing three_new one_existing) = one_existing \<and>
   map ResourceId (merge_with_existing three_new one_existing) = [7, 8]"
proof -
  have fp: "\<forall>e\<in>set one_existing. renormalized e = e"
    by code_simp
  have ids: "map ResourceId (map renormalized one_existing @
          map finalized (assign_ids (max_id one_existing + 1) (truly_new three_new one_existing)))
        = [7, 8]"
    by code_simp
  note t = existing_rows_renormalized [of three_new one_existing]
  from t fp have "take (length one_existing) (merge_with_existing three_new one_existing)
                    = one_existing"
    by blast
  moreover from t have "merge_with_existing three_new one_existing =
      map renormalized one_existing @
      map finalized (assign_ids (max_id one_existing + 1) (truly_new three_new one_existing))"
    by blast
  then have "map ResourceId (merge_with_existing three_new one_existing) = [7, 8]"
    using ids by (simp only:)
  ultimately show ?thesis by blast
qed

end
